theory Spec2Isabelle
  imports Complex_Main "HOL-Library.Word"
begin

section \<open>The image adapter of dpsutil.media.image\<close>

text \<open>
  The module wraps a vision library and a JPEG codec. The embedding keeps every function
  of the module that the verified properties are about, with the Python control flow
  (guards, short-circuit evaluation, raised exceptions) written out. The wrapped libraries
  are not part of the repository: their results enter either as parameters (pixel values,
  encoded bytes) or through the shape contract their documentation gives.
\<close>

subsection \<open>Exceptions, Python values, pixel buffers\<close>

datatype error =
    AssertionError
  | TypeError
  | ValueError
  | ZeroDivisionError
  | FileExistsError
  | FileNotFoundError
  | IsADirectoryError
  | BackendError

text \<open>
  An optional numeric argument as Python passes it: \<open>None\<close>, a number, or a tuple of
  numbers. Integers embed in the reals; a finite float is a real.
\<close>

datatype arg = NoneV | Num real | Tup "real list"

text \<open>Python truthiness: \<open>None\<close>, \<open>0\<close> and the empty tuple are false.\<close>

fun truthy :: "arg \<Rightarrow> bool" where
  "truthy NoneV = False"
| "truthy (Num r) = (r \<noteq> 0)"
| "truthy (Tup xs) = (xs \<noteq> [])"

text \<open>
  A pixel buffer is a three-dimensional array (height, width, channel). The pixel type
  \<open>'a\<close> stands for the channel vector. The width is kept beside the rows, as numpy keeps
  the shape of an array that has no rows.
\<close>

record 'a image =
  rows :: "'a list list"
  ncols :: nat

definition nrows :: "'a image \<Rightarrow> nat" where
  "nrows img = length (rows img)"

text \<open>\<open>img.shape[:2]\<close>: (height, width).\<close>

definition shape :: "'a image \<Rightarrow> nat \<times> nat" where
  "shape img = (nrows img, ncols img)"

definition wf_image :: "'a image \<Rightarrow> bool" where
  "wf_image img = list_all (\<lambda>r. length r = ncols img) (rows img)"

subsection \<open>Python arithmetic and slicing\<close>

text \<open>\<open>round(x)\<close> of Python 3: to the nearest integer, a tie going to the even one.\<close>

definition py_round :: "real \<Rightarrow> int" where
  "py_round x =
     (let f = \<lfloor>x\<rfloor>; d = x - of_int f
      in if d < 1 / 2 then f
         else if 1 / 2 < d then f + 1
         else if even f then f else f + 1)"

text \<open>\<open>int(x)\<close> on a number: truncation towards zero.\<close>

definition py_int :: "real \<Rightarrow> int" where
  "py_int x = (if 0 \<le> x then \<lfloor>x\<rfloor> else \<lceil>x\<rceil>)"

text \<open>
  A slice bound on a sequence of length \<open>n\<close>: a negative bound counts from the end,
  and every bound is clipped to the sequence.
\<close>

definition slice_idx :: "nat \<Rightarrow> int \<Rightarrow> nat" where
  "slice_idx n i = (if i < 0 then nat (max (int n + i) 0) else min (nat i) n)"

definition slice_len :: "nat \<Rightarrow> int \<Rightarrow> int \<Rightarrow> nat" where
  "slice_len n a b = slice_idx n b - slice_idx n a"

definition py_slice :: "int \<Rightarrow> int \<Rightarrow> 'b list \<Rightarrow> 'b list" where
  "py_slice a b xs = take (slice_len (length xs) a b) (drop (slice_idx (length xs) a) xs)"

text \<open>\<open>img[y0:y1, x0:x1]\<close>\<close>

definition slice2 :: "'a image \<Rightarrow> int \<Rightarrow> int \<Rightarrow> int \<Rightarrow> int \<Rightarrow> 'a image" where
  "slice2 img y0 y1 x0 x1 =
     \<lparr>rows = map (py_slice x0 x1) (py_slice y0 y1 (rows img)),
      ncols = slice_len (ncols img) x0 x1\<rparr>"

subsection \<open>crop\<close>

type_synonym box = "real \<times> real \<times> real \<times> real"

text \<open>
  \<open>numpy.any(box)\<close>: some component is not zero. The source unpacks the shape into
  \<open>max_height\<close>, \<open>max_width\<close> and the channel count, and reads \<open>max_width\<close> only: both
  the width and the height of the box are bounded by it.
\<close>

definition numpy_any :: "box \<Rightarrow> bool" where
  "numpy_any b = (b \<noteq> (0, 0, 0, 0))"

definition crop :: "'a image \<Rightarrow> box \<Rightarrow> 'a image" where
  "crop img b =
     (if \<not> numpy_any b then img
      else case b of (x, y, w, h) \<Rightarrow>
        (let max_width = real (ncols img);
             x' = py_round (max x 0);
             y' = py_round (max y 0);
             w' = x' + py_round (min w max_width);
             h' = y' + py_round (min h max_width)
         in slice2 img y' h' x' w'))"


subsection \<open>Raising and propagating\<close>

definition ebind :: "error + 'b \<Rightarrow> ('b \<Rightarrow> error + 'c) \<Rightarrow> error + 'c" where
  "ebind m f = (case m of Inl e \<Rightarrow> Inl e | Inr v \<Rightarrow> f v)"

text \<open>\<open>a > 0\<close> and \<open>a <= 0\<close>: comparing \<open>None\<close> or a tuple with an int raises TypeError.\<close>

fun gt0 :: "arg \<Rightarrow> error + bool" where
  "gt0 (Num r) = Inr (0 < r)"
| "gt0 NoneV = Inl TypeError"
| "gt0 (Tup xs) = Inl TypeError"

fun le0 :: "arg \<Rightarrow> error + bool" where
  "le0 (Num r) = Inr (r \<le> 0)"
| "le0 NoneV = Inl TypeError"
| "le0 (Tup xs) = Inl TypeError"

text \<open>\<open>not a or a > 0\<close> and \<open>not a or a <= 0\<close>, with Python's short circuit.\<close>

definition unset_or_pos :: "arg \<Rightarrow> error + bool" where
  "unset_or_pos a = (if truthy a then gt0 a else Inr True)"

definition unset_or_nonpos :: "arg \<Rightarrow> error + bool" where
  "unset_or_nonpos a = (if truthy a then le0 a else Inr True)"

text \<open>
  \<open>a / n * m\<close> for a shape entry \<open>n\<close> and \<open>m\<close>: \<open>None\<close> and tuples cannot be divided,
  and division by zero raises. The float quotient and product are taken as the exact ones.
\<close>

fun scale_dim :: "arg \<Rightarrow> nat \<Rightarrow> nat \<Rightarrow> error + arg" where
  "scale_dim (Num r) n m =
     (if n = 0 then Inl ZeroDivisionError else Inr (Num (r / real n * real m)))"
| "scale_dim NoneV n m = Inl TypeError"
| "scale_dim (Tup xs) n m = Inl TypeError"

fun to_int :: "arg \<Rightarrow> error + int" where
  "to_int (Num r) = Inr (py_int r)"
| "to_int NoneV = Inl TypeError"
| "to_int (Tup xs) = Inl TypeError"

subsection \<open>The vision library's resize and warpAffine\<close>

text \<open>
  The library functions are outside the repository. Their documented contract is kept:
  the size argument is (width, height), the result has that many columns and rows, an
  empty source is an error, resize refuses an empty size, and warpAffine falls back to
  the source's size on an empty one. The pixel values are a parameter.
\<close>

definition cv2_resize ::
  "(int option \<Rightarrow> 'a image \<Rightarrow> nat \<times> nat \<Rightarrow> nat \<Rightarrow> nat \<Rightarrow> 'a) \<Rightarrow>
     'a image \<Rightarrow> int \<times> int \<Rightarrow> int option \<Rightarrow> error + 'a image" where
  "cv2_resize rs img dsize interpolation =
     (case dsize of (dw, dh) \<Rightarrow>
        if nrows img = 0 \<or> ncols img = 0 \<or> dw \<le> 0 \<or> dh \<le> 0 then Inl BackendError
        else Inr \<lparr>rows = map (\<lambda>r. map (\<lambda>c. rs interpolation img (nat dw, nat dh) r c)
                                   [0..<nat dw]) [0..<nat dh],
                  ncols = nat dw\<rparr>)"

definition cv2_warpAffine ::
  "('a image \<Rightarrow> 'm \<Rightarrow> nat \<Rightarrow> nat \<Rightarrow> 'a) \<Rightarrow> 'a image \<Rightarrow> 'm \<Rightarrow> int \<times> int \<Rightarrow> error + 'a image" where
  "cv2_warpAffine wp img M dsize =
     (case dsize of (dw, dh) \<Rightarrow>
        if nrows img = 0 \<or> ncols img = 0 then Inl BackendError
        else let cw = (if dw \<le> 0 \<or> dh \<le> 0 then ncols img else nat dw);
                 ch = (if dw \<le> 0 \<or> dh \<le> 0 then nrows img else nat dh)
             in Inr \<lparr>rows = map (\<lambda>r. map (\<lambda>c. wp img M r c) [0..<cw]) [0..<ch],
                      ncols = cw\<rparr>)"

subsection \<open>crop\_center, resize, crop\_scale\<close>


definition resize ::
  "(int option \<Rightarrow> 'a image \<Rightarrow> nat \<times> nat \<Rightarrow> nat \<Rightarrow> nat \<Rightarrow> 'a) \<Rightarrow>
     'a image \<Rightarrow> arg \<Rightarrow> arg \<Rightarrow> int option \<Rightarrow> error + 'a image" where
  "resize rs img width height interpolation =
     (if width = NoneV \<and> height = NoneV then Inr img
      else
        ebind (unset_or_pos width) (\<lambda>a.
        ebind (if a then Inr True else unset_or_pos height) (\<lambda>filled.
        if \<not> filled then Inr img
        else
          (let old_h = nrows img; old_w = ncols img in
           ebind (unset_or_nonpos width) (\<lambda>c.
           ebind (if c then scale_dim height old_h old_w else Inr width) (\<lambda>width'.
           ebind (unset_or_nonpos height) (\<lambda>d.
           ebind (if d then scale_dim width' old_w old_h else Inr height) (\<lambda>height'.
           ebind (to_int width') (\<lambda>wi.
           ebind (to_int height') (\<lambda>hi.
           cv2_resize rs img (wi, hi) interpolation))))))))))"

definition crop_scale ::
  "(int option \<Rightarrow> 'a image \<Rightarrow> nat \<times> nat \<Rightarrow> nat \<Rightarrow> nat \<Rightarrow> 'a) \<Rightarrow>
     'a image \<Rightarrow> box \<Rightarrow> arg \<Rightarrow> error + 'a image" where
  "crop_scale rs img b output_size =
     (let b' = (if \<not> numpy_any b then (0, 0, real (ncols img), real (nrows img)) else b);
          img' = crop img b'
      in if truthy output_size then resize rs img' output_size NoneV None
         else Inr img')"

subsection \<open>zoom and rotate\_crop\<close>

text \<open>\<open>type(center) in [type(None), tuple]\<close>\<close>

fun none_or_tuple :: "arg \<Rightarrow> bool" where
  "none_or_tuple NoneV = True"
| "none_or_tuple (Tup xs) = True"
| "none_or_tuple (Num r) = False"

text \<open>
  The centre the transform is taken about: a tuple must have two entries inside the
  image, anything else gives the geometric centre \<open>(w // 2, h // 2)\<close>.
\<close>

fun pick_center :: "arg \<Rightarrow> nat \<Rightarrow> nat \<Rightarrow> error + real \<times> real" where
  "pick_center (Tup [cx, cy]) h w =
     (if 0 \<le> cx \<and> cx \<le> real w \<and> 0 \<le> cy \<and> cy \<le> real h then Inr (cx, cy)
      else Inl AssertionError)"
| "pick_center (Tup xs) h w = Inl AssertionError"
| "pick_center c h w = Inr (real (w div 2), real (h div 2))"

definition zoom ::
  "(real \<times> real \<Rightarrow> real \<Rightarrow> real \<Rightarrow> 'm) \<Rightarrow> ('a image \<Rightarrow> 'm \<Rightarrow> nat \<Rightarrow> nat \<Rightarrow> 'a) \<Rightarrow>
     'a image \<Rightarrow> real \<Rightarrow> arg \<Rightarrow> error + 'a image" where
  "zoom getRotationMatrix2D wp img zoom_level center =
     (if \<not> none_or_tuple center then Inl AssertionError
      else if zoom_level = 1 then Inr img
      else
        (let h = nrows img; w = ncols img in
         ebind (pick_center center h w) (\<lambda>center'.
         cv2_warpAffine wp img (getRotationMatrix2D center' 0 zoom_level) (int w, int h))))"

definition rotate_crop ::
  "(real \<times> real \<Rightarrow> real \<Rightarrow> real \<Rightarrow> 'm) \<Rightarrow> ('a image \<Rightarrow> 'm \<Rightarrow> nat \<Rightarrow> nat \<Rightarrow> 'a) \<Rightarrow>
     'a image \<Rightarrow> real \<Rightarrow> arg \<Rightarrow> error + 'a image" where
  "rotate_crop getRotationMatrix2D wp img angle center =
     (if \<not> none_or_tuple center then Inl AssertionError
      else
        (let h = nrows img; w = ncols img in
         ebind (pick_center center h w) (\<lambda>center'.
         cv2_warpAffine wp img (getRotationMatrix2D center' (- angle) 1) (int h, int w))))"


subsection \<open>Encoding and decoding\<close>

type_synonym bytes = "8 word list"

text \<open>
  What the module takes from elsewhere: the format constants of \<open>constant\<close> and \<open>tool\<close>,
  the header sniffer \<open>image_info\<close>, the JPEG codec and the vision library's codec. Each
  library call may raise; its exception is passed on unchanged.
\<close>

record ('a, 'f, 'e) codec =
  ENCODE_JPEG :: 'f
  ENCODE_PNG :: 'f
  JPEG_FORMAT :: 'e
  JPEG2000_FORMAT :: 'e
  image_info :: "bytes \<Rightarrow> error + 'e \<times> nat \<times> nat"
  turbo_encode :: "'a image \<Rightarrow> int \<Rightarrow> int \<Rightarrow> error + bytes"
  turbo_decode :: "bytes \<Rightarrow> int \<Rightarrow> error + 'a image"
  cv2_imencode :: "'f \<Rightarrow> 'a image \<Rightarrow> int list \<Rightarrow> error + bytes"
  cv2_imdecode :: "bytes \<Rightarrow> int \<Rightarrow> error + 'a image"

definition IMWRITE_PNG_COMPRESSION :: int where
  "IMWRITE_PNG_COMPRESSION = 16"

text \<open>
  \<open>int(quality / 10)\<close> divides an int by ten as a float and truncates towards zero; the
  float quotient is taken as the exact one.
\<close>

definition imencode ::
  "('a, 'f, 'e) codec \<Rightarrow> 'a image \<Rightarrow> 'f \<Rightarrow> int \<Rightarrow> int \<Rightarrow> error + bytes" where
  "imencode C img encode_type quality pixel_format =
     (if encode_type = ENCODE_JPEG C then turbo_encode C img quality pixel_format
      else
        (let quality' = max 0 (min (py_int (of_int quality / 10) - 1) 9)
         in cv2_imencode C (ENCODE_PNG C) img [IMWRITE_PNG_COMPRESSION, quality']))"

definition imdecode :: "('a, 'f, 'e) codec \<Rightarrow> bytes \<Rightarrow> int \<Rightarrow> error + 'a image" where
  "imdecode C buffer pixel_format =
     ebind (image_info C buffer) (\<lambda>info.
       if fst info = JPEG_FORMAT C \<or> fst info = JPEG2000_FORMAT C
       then turbo_decode C buffer pixel_format
       else cv2_imdecode C buffer 1)"

subsection \<open>Files and streams\<close>

datatype node = File bytes | Dir

type_synonym fsys = "string \<rightharpoonup> node"

text \<open>
  What a caller may pass where a path or a stream is expected: a string, a buffered
  reader (with the bytes its \<open>read()\<close> returns), a buffered writer (open on a file of the
  file system), an in-memory \<open>io.BytesIO\<close> stream, or any other object.
\<close>

datatype pyobj =
    Str string
  | BufferedReader bytes
  | BufferedWriter string
  | BytesIO bytes
  | OtherObj

text \<open>\<open>isinstance(img_path, (str, io.BufferedReader))\<close>\<close>

fun str_or_reader :: "pyobj \<Rightarrow> bool" where
  "str_or_reader (Str p) = True"
| "str_or_reader (BufferedReader b) = True"
| "str_or_reader x = False"

text \<open>\<open>isinstance(img_path, (str, io.BufferedWriter))\<close>\<close>

fun str_or_writer :: "pyobj \<Rightarrow> bool" where
  "str_or_writer (Str p) = True"
| "str_or_writer (BufferedWriter p) = True"
| "str_or_writer x = False"

definition isfile :: "fsys \<Rightarrow> string \<Rightarrow> bool" where
  "isfile fs p = (case fs p of Some (File b) \<Rightarrow> True | _ \<Rightarrow> False)"

text \<open>\<open>open(p, 'rb').read()\<close>\<close>

definition open_rb :: "fsys \<Rightarrow> string \<Rightarrow> error + bytes" where
  "open_rb fs p =
     (case fs p of
        None \<Rightarrow> Inl FileNotFoundError
      | Some Dir \<Rightarrow> Inl IsADirectoryError
      | Some (File b) \<Rightarrow> Inr b)"

text \<open>\<open>open(p, 'wb')\<close>: the file is created, or emptied when it exists.\<close>

definition open_wb :: "fsys \<Rightarrow> string \<Rightarrow> error + fsys" where
  "open_wb fs p =
     (case fs p of
        Some Dir \<Rightarrow> Inl IsADirectoryError
      | _ \<Rightarrow> Inr (fs(p \<mapsto> File [])))"

definition fs_write :: "fsys \<Rightarrow> string \<Rightarrow> bytes \<Rightarrow> fsys" where
  "fs_write fs p buffer =
     fs(p \<mapsto> File ((case fs p of Some (File old) \<Rightarrow> old | _ \<Rightarrow> []) @ buffer))"

text \<open>\<open>s.split(c)\<close>: the pieces between the separators, never an empty list.\<close>

fun py_split :: "char \<Rightarrow> string \<Rightarrow> string list" where
  "py_split c [] = [[]]"
| "py_split c (x # xs) =
     (if x = c then [] # py_split c xs
      else (case py_split c xs of [] \<Rightarrow> [[x]] | w # ws \<Rightarrow> (x # w) # ws))"

definition imread ::
  "('a, 'f, 'e) codec \<Rightarrow> fsys \<Rightarrow> pyobj \<Rightarrow> int \<Rightarrow> error + 'a image" where
  "imread C fs img_path pixel_format =
     (if \<not> str_or_reader img_path then Inl AssertionError
      else
        ebind (case img_path of
                 Str p \<Rightarrow> open_rb fs p
               | BufferedReader b \<Rightarrow> Inr b
               | _ \<Rightarrow> Inl TypeError) (\<lambda>buffer.
        imdecode C buffer pixel_format))"

text \<open>The path imwrite writes to: the extension of the format is appended when missing.\<close>

definition target_path :: "('a, 'f, 'e) codec \<Rightarrow> 'f \<Rightarrow> string \<Rightarrow> string" where
  "target_path C encode_type img_path =
     (let ext = (if encode_type = ENCODE_PNG C then ''png'' else ''jpg'')
      in if ext = last (py_split CHR ''.'' img_path) then img_path
         else img_path @ ''.'' @ ext)"

text \<open>The body of the \<open>with\<close> block: encode, then write all of the buffer.\<close>

definition write_encoded ::
  "('a, 'f, 'e) codec \<Rightarrow> fsys \<Rightarrow> string \<Rightarrow> 'a image \<Rightarrow> 'f \<Rightarrow> int \<Rightarrow> int \<Rightarrow>
     (error + unit) \<times> fsys" where
  "write_encoded C fs p img encode_type quality pixel_format =
     (case imencode C img encode_type quality pixel_format of
        Inl e \<Rightarrow> (Inl e, fs)
      | Inr buffer \<Rightarrow> (Inr (), fs_write fs p buffer))"

text \<open>imwrite returns nothing; the result is the exception, if any, and the file system.\<close>

definition imwrite ::
  "('a, 'f, 'e) codec \<Rightarrow> fsys \<Rightarrow> 'a image \<Rightarrow> pyobj \<Rightarrow> 'f \<Rightarrow> int \<Rightarrow> int \<Rightarrow> bool \<Rightarrow>
     (error + unit) \<times> fsys" where
  "imwrite C fs img img_path encode_type quality pixel_format over_write =
     (if \<not> str_or_writer img_path then (Inl AssertionError, fs)
      else case img_path of
        Str p \<Rightarrow>
          (let p' = target_path C encode_type p
           in if isfile fs p' \<and> \<not> over_write then (Inl FileExistsError, fs)
              else (case open_wb fs p' of
                      Inl e \<Rightarrow> (Inl e, fs)
                    | Inr fs' \<Rightarrow> write_encoded C fs' p' img encode_type quality pixel_format))
      | BufferedWriter p \<Rightarrow> write_encoded C fs p img encode_type quality pixel_format
      | _ \<Rightarrow> (Inl AssertionError, fs))"

subsection \<open>draw\_text\<close>

datatype color = ColorTuple "int list" | ColorHex string

text \<open>
  The colour helpers of \<open>tool\<close> and the two text functions of the vision library. putText
  draws into the buffer; the drawn buffer is its result. A position is a sequence of
  integers: a list and a tuple of the same entries are the same position after
  \<open>tuple(position)\<close>. The non-wrapping branch leaves the line type at the library's default.
\<close>

record 'a drawlib =
  hex2rgb :: "string \<Rightarrow> error + int list"
  color_rgb2bgr :: "int list \<Rightarrow> error + int list"
  getTextSize :: "string \<Rightarrow> int \<Rightarrow> real \<Rightarrow> int \<Rightarrow> error + int \<times> int"
  putText :: "'a image \<Rightarrow> string \<Rightarrow> int list \<Rightarrow> int \<Rightarrow> real \<Rightarrow> int list \<Rightarrow> int \<Rightarrow> int option \<Rightarrow>
                error + 'a image"

definition FONT_HERSHEY_DUPLEX :: int where
  "FONT_HERSHEY_DUPLEX = 2"

definition LINE_AA :: int where
  "LINE_AA = 16"

text \<open>The loop of the wrapping branch, over \<open>enumerate(label.split('\n'))\<close>.\<close>

fun draw_lines ::
  "'a drawlib \<Rightarrow> int list \<Rightarrow> real \<Rightarrow> int \<Rightarrow> int \<Rightarrow> int \<Rightarrow> string list \<Rightarrow> 'a image \<Rightarrow>
     error + 'a image" where
  "draw_lines D color scale_factor thickness font i [] img = Inr img"
| "draw_lines D color scale_factor thickness font i (line # ls) img =
     ebind (getTextSize D line font scale_factor thickness) (\<lambda>text_size.
       (let gap = snd text_size + 10;
            y = py_int (of_int (int (nrows img) + snd text_size) / 2) + i * gap;
            x = py_int (of_int (int (ncols img) - fst text_size) / 2)
        in ebind (putText D img line [x, y] font scale_factor color thickness (Some LINE_AA))
             (\<lambda>img'. draw_lines D color scale_factor thickness font (i + 1) ls img')))"

definition draw_text ::
  "'a drawlib \<Rightarrow> 'a image \<Rightarrow> string \<Rightarrow> int list \<Rightarrow> color \<Rightarrow> real \<Rightarrow> int \<Rightarrow> int \<Rightarrow> bool \<Rightarrow>
     error + 'a image" where
  "draw_text D img label position color scale_factor thickness font wrap_text =
     ebind (case color of
              ColorHex s \<Rightarrow> ebind (hex2rgb D s) (color_rgb2bgr D)
            | ColorTuple c \<Rightarrow> Inr c) (\<lambda>color'.
       if wrap_text
       then draw_lines D color' scale_factor thickness font 0 (py_split (CHR 0x0A) label) img
       else putText D img label position FONT_HERSHEY_DUPLEX scale_factor color' thickness None)"


subsection \<open>The specification's compression level\<close>


subsection \<open>A concrete codec for the instances\<close>

definition sample_codec :: "(nat, string, string) codec" where
  "sample_codec =
     \<lparr>ENCODE_JPEG = ''.jpg'', ENCODE_PNG = ''.png'',
      JPEG_FORMAT = ''jpeg'', JPEG2000_FORMAT = ''jp2'',
      image_info = (\<lambda>b. Inr (''png'', 0, 0)),
      turbo_encode = (\<lambda>img q pf. Inr [1, of_int q, of_int pf]),
      turbo_decode = (\<lambda>b pf. Inl BackendError),
      cv2_imencode = (\<lambda>ext img ps. Inr (2 # map of_int ps)),
      cv2_imdecode = (\<lambda>b flag. Inr \<lparr>rows = [[length b]], ncols = 1\<rparr>)\<rparr>"

section \<open>Properties\<close>

subsection \<open>Rounding and slicing\<close>

lemma py_round_of_int [simp]: "py_round (of_int n) = n"
  by (simp add: py_round_def)

lemma py_round_of_nat [simp]: "py_round (real n) = int n"
  using py_round_of_int [of "int n"] by simp

lemma py_round_numeral [simp]: "py_round (numeral n) = numeral n"
  using py_round_of_int [of "numeral n"] by simp

lemma py_round_0 [simp]: "py_round 0 = 0"
  using py_round_of_int [of 0] by simp

lemma py_round_1 [simp]: "py_round 1 = 1"
  using py_round_of_int [of 1] by simp


lemma py_round_nonneg: "0 \<le> x \<Longrightarrow> 0 \<le> py_round x"
  by (auto simp: py_round_def Let_def)

lemma py_round_bounds:
  "real_of_int (py_round x) \<le> x + 1 / 2 \<and> x - 1 / 2 \<le> real_of_int (py_round x)"
  by (auto simp: py_round_def Let_def) linarith+




lemma py_round_le_nat:
  assumes "x \<le> real n"
  shows "py_round x \<le> int n"
proof -
  have "real_of_int (py_round x) \<le> x + 1 / 2" using py_round_bounds [of x] by simp
  with assms have "real_of_int (py_round x) < real_of_int (int n + 1)" by simp
  then have "py_round x < int n + 1" by (simp only: of_int_less_iff)
  then show ?thesis by simp
qed

lemma slice_len_le:
  assumes "0 \<le> a" and "0 \<le> k"
  shows "slice_len n a (a + k) \<le> nat k"
  using assms by (auto simp: slice_len_def slice_idx_def)

lemma length_py_slice: "length (py_slice a b xs) = slice_len (length xs) a b"
  by (auto simp: py_slice_def slice_len_def slice_idx_def)

text \<open>Slicing a well-formed buffer gives a well-formed buffer.\<close>

lemma wf_image_slice2:
  assumes "wf_image img"
  shows "wf_image (slice2 img y0 y1 x0 x1)"
proof -
  have "length (py_slice x0 x1 r) = slice_len (ncols img) x0 x1"
    if "r \<in> set (py_slice y0 y1 (rows img))" for r
  proof -
    from that have "r \<in> set (rows img)"
      by (auto simp: py_slice_def dest: in_set_takeD in_set_dropD)
    with assms have "length r = ncols img" by (simp add: wf_image_def list_all_iff)
    then show ?thesis by (simp add: length_py_slice)
  qed
  then show ?thesis by (simp add: wf_image_def slice2_def list_all_iff)
qed

subsection \<open>crop\<close>

lemma crop_nonzero_box:
  assumes "(x, y, w, h) \<noteq> (0, 0, 0, 0)"
  shows "crop img (x, y, w, h) =
           slice2 img (py_round (max y 0)) (py_round (max y 0) + py_round (min h (real (ncols img))))
                      (py_round (max x 0)) (py_round (max x 0) + py_round (min w (real (ncols img))))"
  using assms by (simp add: crop_def numpy_any_def Let_def)

text \<open>A box of non-negative height never yields more rows than the source has columns.\<close>

lemma nrows_crop_le_ncols:
  assumes "(x, y, w, h) \<noteq> (0, 0, 0, 0)" and "0 \<le> h"
  shows "nrows (crop img (x, y, w, h)) \<le> ncols img"
proof -
  define y' where "y' = py_round (max y 0)"
  define k where "k = py_round (min h (real (ncols img)))"
  have y0: "0 \<le> y'" by (simp add: y'_def py_round_nonneg)
  have k0: "0 \<le> k" using assms(2) by (simp add: k_def py_round_nonneg)
  have kw: "k \<le> int (ncols img)" unfolding k_def by (rule py_round_le_nat) simp
  have "nrows (crop img (x, y, w, h)) \<le> slice_len (nrows img) y' (y' + k)"
    using crop_nonzero_box [OF assms(1), of img]
    by (simp add: slice2_def py_slice_def nrows_def y'_def k_def)
  also have "\<dots> \<le> nat k" using slice_len_le [OF y0 k0] .
  also have "\<dots> \<le> ncols img" using kw by simp
  finally show ?thesis .
qed

lemma wf_image_crop:
  assumes "wf_image img"
  shows "wf_image (crop img b)"
proof (cases "b = (0, 0, 0, 0)")
  case True
  with assms show ?thesis by (simp add: crop_def numpy_any_def)
next
  case False
  obtain x y w h where b: "b = (x, y, w, h)" by (cases b) auto
  with False crop_nonzero_box [of x y w h img] wf_image_slice2 [OF assms]
  show ?thesis by simp
qed

text \<open>
  C8. For every buffer, \<open>crop(buf, (0,0,0,0))\<close> returns the buffer itself: the all-zero
  box is the identity of crop.
\<close>

theorem crop_zero_box_identity: "crop img (0, 0, 0, 0) = img"
  by (simp add: crop_def numpy_any_def)

text \<open>
  C1. For every buffer and every box that is not all zero, crop clamps x and y to be
  non-negative, bounds the box's width by the source width and bounds the box's height by
  the source \<^emph>\<open>width\<close> as well, and returns the region
  \<open>img[y : y + min(h, width), x : x + min(w, width)]\<close> (each bound rounded to an integer,
  which changes nothing on an integer box). Hence a box of non-negative height never
  yields more rows than the source has columns, however tall the source is.
\<close>

theorem crop_height_bound_uses_width:
  assumes "(x, y, w, h) \<noteq> (0, 0, 0, 0)"
  shows "crop img (x, y, w, h) =
           slice2 img (py_round (max y 0)) (py_round (max y 0) + py_round (min h (real (ncols img))))
                      (py_round (max x 0)) (py_round (max x 0) + py_round (min w (real (ncols img))))
         \<and> 0 \<le> py_round (max x 0) \<and> 0 \<le> py_round (max y 0)
         \<and> py_round (min w (real (ncols img))) \<le> int (ncols img)
         \<and> py_round (min h (real (ncols img))) \<le> int (ncols img)
         \<and> (0 \<le> h \<longrightarrow> nrows (crop img (x, y, w, h)) \<le> ncols img)"
  using crop_nonzero_box [OF assms, of img] nrows_crop_le_ncols [OF assms, of img]
  by (simp add: py_round_nonneg py_round_le_nat)

text \<open>
  On a buffer of three rows and two columns the box (0, 0, 2, 3) asks for all three
  rows and gets two: the height is cut at the width.
\<close>

theorem crop_height_bound_uses_width_witness:
  "((0, 0, 2, 3) :: box) \<noteq> (0, 0, 0, 0)
   \<and> crop \<lparr>rows = [[1, 2], [3, 4], [5, 6 :: nat]], ncols = 2\<rparr> (0, 0, 2, 3)
       = \<lparr>rows = [[1, 2], [3, 4]], ncols = 2\<rparr>
   \<and> nrows (crop \<lparr>rows = [[1, 2], [3, 4], [5, 6 :: nat]], ncols = 2\<rparr> (0, 0, 2, 3)) \<le> 2"
  using crop_height_bound_uses_width [of 0 0 2 3 "\<lparr>rows = [[1, 2], [3, 4], [5, 6 :: nat]], ncols = 2\<rparr>"]
  by (simp add: slice2_def py_slice_def slice_len_def slice_idx_def nrows_def)

subsection \<open>crop\_center\<close>




subsection \<open>resize and crop\_scale\<close>

text \<open>Both dimensions given and positive: the result has exactly those dimensions.\<close>

lemma resize_both_given_shape:
  assumes "0 < w" and "0 < h" and "0 < nrows img" and "0 < ncols img"
  shows "\<exists>out. resize rs img (Num (of_int w)) (Num (of_int h)) interpolation = Inr out
           \<and> shape out = (nat h, nat w)"
  using assms
  by (simp add: resize_def unset_or_pos_def unset_or_nonpos_def ebind_def Let_def
        cv2_resize_def py_int_def shape_def nrows_def)

text \<open>One dimension given and positive: the other is the given one scaled by the aspect ratio.\<close>

lemma resize_width_only:
  assumes "0 < w" and "0 < ncols img"
  shows "resize rs img (Num w) NoneV interpolation
           = cv2_resize rs img (py_int w, py_int (w / real (ncols img) * real (nrows img))) interpolation"
  using assms
  by (simp add: resize_def unset_or_pos_def unset_or_nonpos_def ebind_def Let_def)

lemma resize_height_only:
  assumes "0 < h" and "0 < nrows img"
  shows "resize rs img NoneV (Num h) interpolation
           = cv2_resize rs img (py_int (h / real (nrows img) * real (ncols img)), py_int h) interpolation"
  using assms
  by (simp add: resize_def unset_or_pos_def unset_or_nonpos_def ebind_def Let_def)

text \<open>Beside a positive height, a zero or negative width counts as no width.\<close>

lemma resize_positive_ignores_unset:
  assumes "0 < h" and "w \<le> 0"
  shows "resize rs img (Num w) (Num h) interpolation = resize rs img NoneV (Num h) interpolation"
  using assms
  by (auto simp add: resize_def unset_or_pos_def unset_or_nonpos_def ebind_def Let_def)

text \<open>Two zero dimensions reach the library, which refuses the empty size.\<close>

lemma resize_zero_zero:
  assumes "0 < nrows img" and "0 < ncols img"
  shows "resize rs img (Num 0) (Num 0) interpolation = Inl BackendError"
  using assms
  by (simp add: resize_def unset_or_pos_def unset_or_nonpos_def ebind_def Let_def
        cv2_resize_def py_int_def)

text \<open>
  C4. The claim: resize with no dimension returns its input, with one dimension derives
  the other, with both resizes to exactly those, and takes a negative or zero dimension
  as one that is not given. The code at \<open>width = -5\<close> or \<open>width = 0\<close> with no height: it
  does not return the input, as it does with no dimension at all and with two negative
  ones, but raises TypeError, on every buffer, when it divides the missing height.
\<close>

theorem resize_nonpositive_width_raises:
  "resize rs img NoneV NoneV interpolation = Inr img
   \<and> resize rs img (Num (- 5)) (Num (- 5)) interpolation = Inr img
   \<and> resize rs img (Num (- 5)) NoneV interpolation = Inl TypeError
   \<and> resize rs img (Num 0) NoneV interpolation = Inl TypeError"
  by (simp add: resize_def unset_or_pos_def unset_or_nonpos_def ebind_def Let_def)

text \<open>
  With the default box and no output size a buffer taller than wide loses its lower rows:
  the box is the full extent, and crop bounds its height by the width.
\<close>

lemma crop_scale_tall_default:
  "crop_scale rs \<lparr>rows = [[a, b], [c, d], [e, f]], ncols = 2\<rparr> (0, 0, 0, 0) NoneV
     = Inr \<lparr>rows = [[a, b], [c, d]], ncols = 2\<rparr>"
proof -
  have "crop \<lparr>rows = [[a, b], [c, d], [e, f]], ncols = 2\<rparr> (0, 0, 2, 3)
          = \<lparr>rows = [[a, b], [c, d]], ncols = 2\<rparr>"
    using crop_nonzero_box [of 0 0 2 3 "\<lparr>rows = [[a, b], [c, d], [e, f]], ncols = 2\<rparr>"]
    by (simp add: slice2_def py_slice_def slice_len_def slice_idx_def)
  then show ?thesis by (simp add: crop_scale_def numpy_any_def nrows_def)
qed

text \<open>
  C3. The claim: crop\_scale with an all-zero box crops to the full extent and, given an
  output size, returns a buffer of exactly those dimensions. The code hands the output
  size to resize as its width: a (width, height) pair raises TypeError on every buffer,
  and a single number sets the width only, the height following the aspect ratio (a
  buffer of two rows and four columns, scaled to 2, comes back with one row).
\<close>

theorem crop_scale_tuple_size_raises:
  "crop_scale rs img (0, 0, 0, 0) (Tup [w, h]) = Inl TypeError
   \<and> map_sum id shape
        (crop_scale rs \<lparr>rows = [[a, b, c, d], [e, f, g, k]], ncols = 4\<rparr> (0, 0, 0, 0) (Num 2))
       = Inr (1, 2)"
proof -
  have t: "crop_scale rs img (0, 0, 0, 0) (Tup [w, h]) = Inl TypeError"
    by (simp add: crop_scale_def resize_def unset_or_pos_def ebind_def Let_def)
  have c: "crop \<lparr>rows = [[a, b, c, d], [e, f, g, k]], ncols = 4\<rparr> (0, 0, 4, 2)
             = \<lparr>rows = [[a, b, c, d], [e, f, g, k]], ncols = 4\<rparr>"
    using crop_nonzero_box [of 0 0 4 2 "\<lparr>rows = [[a, b, c, d], [e, f, g, k]], ncols = 4\<rparr>"]
    by (simp add: slice2_def py_slice_def slice_len_def slice_idx_def)
  have r: "map_sum id shape
             (resize rs \<lparr>rows = [[a, b, c, d], [e, f, g, k]], ncols = 4\<rparr> (Num 2) NoneV None)
           = Inr (1, 2)"
    by (simp add: resize_def unset_or_pos_def unset_or_nonpos_def ebind_def
          nrows_def shape_def cv2_resize_def py_int_def)
  have "map_sum id shape
        (crop_scale rs \<lparr>rows = [[a, b, c, d], [e, f, g, k]], ncols = 4\<rparr> (0, 0, 0, 0) (Num 2))
       = Inr (1, 2)"
    by (simp add: crop_scale_def numpy_any_def nrows_def c r)
  with t show ?thesis by simp
qed

subsection \<open>rotate\_crop and zoom\<close>

text \<open>
  On a buffer that is not empty, rotate\_crop about the default centre answers with the
  transposed canvas, and zoom with the canvas of its input.
\<close>

lemma rotate_crop_shape:
  assumes "0 < nrows img" and "0 < ncols img"
  shows "\<exists>out. rotate_crop gm wp img angle NoneV = Inr out \<and> shape out = (ncols img, nrows img)"
  using assms
  by (simp add: rotate_crop_def ebind_def cv2_warpAffine_def Let_def shape_def nrows_def)

lemma zoom_shape:
  assumes "0 < nrows img" and "0 < ncols img"
  shows "\<exists>out. zoom gm wp img level NoneV = Inr out \<and> shape out = shape img"
  using assms
  by (simp add: zoom_def ebind_def cv2_warpAffine_def Let_def shape_def nrows_def)

text \<open>
  C2. The claim: rotate\_crop returns a buffer with the canvas of its input, height h and
  width w. The code on a buffer of two rows and three columns: it passes (h, w) where the
  library reads (width, height), so the result has three rows and two columns, whatever
  the angle; zoom, which passes (w, h), keeps two rows and three columns.
\<close>

theorem rotate_crop_swaps_canvas:
  "map_sum id shape (rotate_crop gm wp \<lparr>rows = [[a, b, c], [d, e, f]], ncols = 3\<rparr> angle NoneV)
     = Inr (3, 2)
   \<and> map_sum id shape (zoom gm wp \<lparr>rows = [[a, b, c], [d, e, f]], ncols = 3\<rparr> 2 NoneV)
     = Inr (2, 3)"
  by (simp add: rotate_crop_def zoom_def ebind_def cv2_warpAffine_def Let_def shape_def nrows_def)

subsection \<open>imencode\<close>




subsection \<open>imwrite and imread\<close>

text \<open>
  C5. For every buffer and every path whose target file (the path with the format's
  extension appended when missing) exists, imwrite without over\_write raises
  FileExistsError and leaves the file system, hence the existing file's bytes, as it was:
  nothing is opened or written on that path.
\<close>

theorem imwrite_existing_target_untouched:
  assumes "isfile fs (target_path C encode_type p)" and "\<not> over_write"
  shows "imwrite C fs img (Str p) encode_type quality pixel_format over_write
           = (Inl FileExistsError, fs)"
  using assms by (simp add: imwrite_def)

theorem imwrite_existing_target_untouched_witness:
  "isfile [''a.jpg'' \<mapsto> File [1, 2, 3]] (target_path sample_codec ''.jpg'' ''a'')
   \<and> \<not> False
   \<and> imwrite sample_codec [''a.jpg'' \<mapsto> File [1, 2, 3]] \<lparr>rows = [[7]], ncols = 1\<rparr>
        (Str ''a'') ''.jpg'' 95 1 False
       = (Inl FileExistsError, [''a.jpg'' \<mapsto> File [1, 2, 3]])"
proof -
  have e: "isfile [''a.jpg'' \<mapsto> File [1, 2, 3]] (target_path sample_codec ''.jpg'' ''a'')"
    by (simp add: isfile_def target_path_def sample_codec_def)
  from imwrite_existing_target_untouched [OF e, of False "\<lparr>rows = [[7]], ncols = 1\<rparr>" 95 1] e
  show ?thesis by simp
qed

text \<open>
  C10. imread passes its type guard exactly on a path string and on an io.BufferedReader:
  on those it reads and decodes, and on every other input it fails with AssertionError.
  An io.BytesIO stream, readable and binary as it is, is among the rejected ones.
\<close>

theorem imread_accepts_str_or_reader:
  "(str_or_reader x \<longleftrightarrow> (\<exists>p. x = Str p) \<or> (\<exists>b. x = BufferedReader b))
   \<and> (\<not> str_or_reader x \<longrightarrow> imread C fs x pixel_format = Inl AssertionError)
   \<and> imread C fs (BytesIO b) pixel_format = Inl AssertionError
   \<and> imread C fs (BufferedReader b) pixel_format = imdecode C b pixel_format
   \<and> imread C fs (Str p) pixel_format = ebind (open_rb fs p) (\<lambda>buffer. imdecode C buffer pixel_format)"
  by (cases x) (simp_all add: imread_def ebind_def)

theorem imread_accepts_str_or_reader_witness:
  "\<not> str_or_reader (BytesIO [1, 2])
   \<and> imread sample_codec [''a.png'' \<mapsto> File [1, 2]] (BytesIO [1, 2]) 1 = Inl AssertionError
   \<and> imread sample_codec [''a.png'' \<mapsto> File [1, 2]] OtherObj 1 = Inl AssertionError
   \<and> imread sample_codec [''a.png'' \<mapsto> File [1, 2]] (BufferedReader [1, 2]) 1
       = Inr \<lparr>rows = [[2]], ncols = 1\<rparr>
   \<and> imread sample_codec [''a.png'' \<mapsto> File [1, 2]] (Str ''a.png'') 1
       = Inr \<lparr>rows = [[2]], ncols = 1\<rparr>"
  using imread_accepts_str_or_reader [where x = "BytesIO [1, 2]" and C = sample_codec
          and fs = "[''a.png'' \<mapsto> File [1, 2]]" and pixel_format = 1 and b = "[1, 2]"
          and p = "''a.png''"]
        imread_accepts_str_or_reader [where x = OtherObj and C = sample_codec
          and fs = "[''a.png'' \<mapsto> File [1, 2]]" and pixel_format = 1 and b = "[1, 2]"
          and p = "''a.png''"]
  by (simp add: imdecode_def ebind_def open_rb_def sample_codec_def)

subsection \<open>draw\_text\<close>

text \<open>
  C9. Without wrapping, draw\_text does not depend on the font argument: two calls that
  differ only in the font give the same result, since that branch passes the fixed font
  FONT\_HERSHEY\_DUPLEX to the library.
\<close>

theorem draw_text_font_independent:
  "draw_text D img label position color scale_factor thickness font1 False
     = draw_text D img label position color scale_factor thickness font2 False"
  by (simp add: draw_text_def)

end
